theory Spec2Isabelle
  imports Complex_Main
begin

section \<open>Python values, floats and exceptions\<close>

text \<open>
  The engine in \<^verbatim>\<open>src/engine.py\<close> has two static methods,
  \<^verbatim>\<open>calculate_sample_size\<close> and \<^verbatim>\<open>analyze_results\<close>. Both compute with Python
  floats and hand the statistics proper to scipy and statsmodels.

  A float is modelled as a real number or one of the three special values: a finite
  float is taken as the real it denotes (rounding error and overflow of finite
  arithmetic are left out, and the two zeros are one), while NaN and the infinities keep
  their IEEE behaviour, because the control flow of the engine depends on it
  (\<^verbatim>\<open>nan < x\<close> is false, \<^verbatim>\<open>int(nan)\<close> raises). The number of variants is a Python
  int, which is unbounded: dividing a float by it converts it to a float, and that
  conversion can fail.
\<close>

datatype pyfloat = Fin real | PInf | NInf | NaN

text \<open>The values a keyword argument of \<^verbatim>\<open>analyze_results\<close> can hold.\<close>

datatype pyval = PInt int | PFloat pyfloat | PStr string | PNone

text \<open>
  The exceptions. All but the last two derive from \<^verbatim>\<open>Exception\<close>;
  \<^verbatim>\<open>KeyboardInterrupt\<close> and \<^verbatim>\<open>SystemExit\<close> derive from \<^verbatim>\<open>BaseException\<close> only.
  \<^verbatim>\<open>OtherException\<close> stands for any further class derived from \<^verbatim>\<open>Exception\<close> that a
  library routine may raise.
\<close>

datatype exn =
    ValueError string
  | KeyError string
  | TypeError
  | ZeroDivisionError
  | OverflowError
  | UnboundLocalError string
  | AttributeError string
  | OtherException string
  | KeyboardInterrupt
  | SystemExit

fun is_Exception :: "exn \<Rightarrow> bool" where
  "is_Exception KeyboardInterrupt = False"
| "is_Exception SystemExit = False"
| "is_Exception _ = True"

definition bindE :: "exn + 'a \<Rightarrow> ('a \<Rightarrow> exn + 'b) \<Rightarrow> exn + 'b" where
  "bindE m f = (case m of Inl e \<Rightarrow> Inl e | Inr x \<Rightarrow> f x)"

subsection \<open>Float arithmetic\<close>

fun fneg :: "pyfloat \<Rightarrow> pyfloat" where
  "fneg (Fin x) = Fin (- x)"
| "fneg PInf = NInf"
| "fneg NInf = PInf"
| "fneg NaN = NaN"

fun fadd :: "pyfloat \<Rightarrow> pyfloat \<Rightarrow> pyfloat" where
  "fadd NaN _ = NaN"
| "fadd _ NaN = NaN"
| "fadd (Fin x) (Fin y) = Fin (x + y)"
| "fadd (Fin _) PInf = PInf"
| "fadd (Fin _) NInf = NInf"
| "fadd PInf NInf = NaN"
| "fadd PInf _ = PInf"
| "fadd NInf PInf = NaN"
| "fadd NInf _ = NInf"

definition fsub :: "pyfloat \<Rightarrow> pyfloat \<Rightarrow> pyfloat" where
  "fsub a b = fadd a (fneg b)"

text \<open>The infinity with the sign of a non-zero real.\<close>

definition inf_of_sign :: "real \<Rightarrow> pyfloat" where
  "inf_of_sign x = (if 0 < x then PInf else NInf)"

fun fmul :: "pyfloat \<Rightarrow> pyfloat \<Rightarrow> pyfloat" where
  "fmul NaN _ = NaN"
| "fmul _ NaN = NaN"
| "fmul (Fin x) (Fin y) = Fin (x * y)"
| "fmul (Fin x) PInf = (if x = 0 then NaN else inf_of_sign x)"
| "fmul (Fin x) NInf = (if x = 0 then NaN else inf_of_sign (- x))"
| "fmul PInf (Fin y) = (if y = 0 then NaN else inf_of_sign y)"
| "fmul NInf (Fin y) = (if y = 0 then NaN else inf_of_sign (- y))"
| "fmul PInf PInf = PInf"
| "fmul PInf NInf = NInf"
| "fmul NInf PInf = NInf"
| "fmul NInf NInf = PInf"

text \<open>IEEE division by a divisor that is not zero.\<close>

fun fdiv :: "pyfloat \<Rightarrow> pyfloat \<Rightarrow> pyfloat" where
  "fdiv NaN _ = NaN"
| "fdiv _ NaN = NaN"
| "fdiv (Fin x) (Fin y) = Fin (x / y)"
| "fdiv (Fin _) _ = Fin 0"
| "fdiv PInf (Fin y) = inf_of_sign y"
| "fdiv NInf (Fin y) = inf_of_sign (- y)"
| "fdiv _ _ = NaN"

text \<open>
  Python's \<^verbatim>\<open>a / b\<close> on floats: a zero divisor raises \<^verbatim>\<open>ZeroDivisionError\<close>,
  whatever the dividend.
\<close>

definition py_truediv :: "pyfloat \<Rightarrow> pyfloat \<Rightarrow> exn + pyfloat" where
  "py_truediv a b = (if b = Fin 0 then Inl ZeroDivisionError else Inr (fdiv a b))"

text \<open>
  Python's \<^verbatim>\<open>a / k\<close> for a float \<open>a\<close> and an int \<open>k\<close>: the int is converted to a float
  first, which raises \<^verbatim>\<open>OverflowError\<close> for an int that rounds beyond the largest
  float, that is from \<open>2\<^sup>1\<^sup>0\<^sup>2\<^sup>4 - 2\<^sup>9\<^sup>7\<^sup>0\<close> on; then the floats are divided.
\<close>

definition float_int_bound :: int where
  "float_int_bound = 2 ^ 1024 - 2 ^ 970"

definition float_of_int :: "int \<Rightarrow> exn + pyfloat" where
  "float_of_int k =
     (if \<bar>k\<bar> < float_int_bound then Inr (Fin (of_int k)) else Inl OverflowError)"

definition py_truediv_int :: "pyfloat \<Rightarrow> int \<Rightarrow> exn + pyfloat" where
  "py_truediv_int a k = bindE (float_of_int k) (py_truediv a)"

text \<open>\<^verbatim>\<open>a < b\<close> on floats: false as soon as one side is NaN.\<close>

fun fless :: "pyfloat \<Rightarrow> pyfloat \<Rightarrow> bool" where
  "fless NaN _ = False"
| "fless _ NaN = False"
| "fless (Fin x) (Fin y) = (x < y)"
| "fless (Fin _) PInf = True"
| "fless (Fin _) NInf = False"
| "fless PInf _ = False"
| "fless NInf NInf = False"
| "fless NInf _ = True"

text \<open>
  \<^verbatim>\<open>round(x, 4)\<close>: to the nearest multiple of \<open>10\<^sup>-\<^sup>4\<close>, ties to the even one;
  NaN and the infinities round to themselves.
\<close>

definition round_half_even :: "real \<Rightarrow> int" where
  "round_half_even x =
     (let f = \<lfloor>x\<rfloor>; d = x - of_int f
      in if d < 1 / 2 then f else if 1 / 2 < d then f + 1 else if even f then f else f + 1)"

fun round4 :: "pyfloat \<Rightarrow> pyfloat" where
  "round4 (Fin x) = Fin (of_int (round_half_even (x * 10000)) / 10000)"
| "round4 PInf = PInf"
| "round4 NInf = NInf"
| "round4 NaN = NaN"

text \<open>\<^verbatim>\<open>int(np.ceil(x))\<close>: NaN and the infinities have no integer.\<close>

fun py_int_ceil :: "pyfloat \<Rightarrow> exn + int" where
  "py_int_ceil (Fin x) = Inr \<lceil>x\<rceil>"
| "py_int_ceil NaN = Inl (ValueError ''cannot convert float NaN to integer'')"
| "py_int_ceil _ = Inl OverflowError"

subsection \<open>Dynamically typed operands\<close>

text \<open>An \<^verbatim>\<open>int\<close> or a \<^verbatim>\<open>float\<close> is a number; a string and \<^verbatim>\<open>None\<close> are not.\<close>

fun as_float :: "pyval \<Rightarrow> pyfloat option" where
  "as_float (PInt i) = Some (Fin (of_int i))"
| "as_float (PFloat f) = Some f"
| "as_float _ = None"

definition py_div :: "pyval \<Rightarrow> pyval \<Rightarrow> exn + pyfloat" where
  "py_div a b =
     (case (as_float a, as_float b) of
        (Some x, Some y) \<Rightarrow> py_truediv x y
      | _ \<Rightarrow> Inl TypeError)"

definition py_sub :: "pyval \<Rightarrow> pyval \<Rightarrow> exn + pyfloat" where
  "py_sub a b =
     (case (as_float a, as_float b) of
        (Some x, Some y) \<Rightarrow> Inr (fsub x y)
      | _ \<Rightarrow> Inl TypeError)"

definition py_lt :: "pyfloat \<Rightarrow> pyval \<Rightarrow> exn + bool" where
  "py_lt p a = (case as_float a of Some y \<Rightarrow> Inr (fless p y) | None \<Rightarrow> Inl TypeError)"

text \<open>\<^verbatim>\<open>kwargs[k]\<close>: a missing key raises \<^verbatim>\<open>KeyError\<close>.\<close>

definition lookup :: "(string \<rightharpoonup> pyval) \<Rightarrow> string \<Rightarrow> exn + pyval" where
  "lookup kwargs k = (case kwargs k of None \<Rightarrow> Inl (KeyError k) | Some v \<Rightarrow> Inr v)"

section \<open>The library routines\<close>

text \<open>
  scipy and statsmodels are not part of the repository. What their routines compute is
  a parameter of the model; each returns a value or raises.
  \<^item> \<open>proportion_effectsize prop1 prop2\<close>;
  \<^item> \<open>proportions_ztest count1 count2 nobs1 nobs2\<close>, returning the statistic and
    the p-value of the one-sided test;
  \<^item> \<open>ttest_ind_from_stats mean1 std1 nobs1 mean2 std2 nobs2\<close>, likewise;
  \<^item> a method of the power-analysis object, called as on line 64 with
    \<open>effect_size alpha power ratio\<close>.
\<close>

type_synonym effectsize_fn = "pyfloat \<Rightarrow> pyfloat \<Rightarrow> exn + pyfloat"
type_synonym solver_fn = "pyfloat \<Rightarrow> pyfloat \<Rightarrow> pyfloat \<Rightarrow> pyfloat \<Rightarrow> exn + pyfloat"
type_synonym ztest_fn = "pyval \<Rightarrow> pyval \<Rightarrow> pyval \<Rightarrow> pyval \<Rightarrow> exn + (pyfloat \<times> pyfloat)"
type_synonym ttest_fn =
  "pyval \<Rightarrow> pyval \<Rightarrow> pyval \<Rightarrow> pyval \<Rightarrow> pyval \<Rightarrow> pyval \<Rightarrow> exn + (pyfloat \<times> pyfloat)"

text \<open>
  An object is the table of its methods; \<^verbatim>\<open>obj.name\<close> raises \<^verbatim>\<open>AttributeError\<close> for a
  name that is not in the table.
\<close>

type_synonym pyobject = "string \<rightharpoonup> solver_fn"

definition getattr :: "pyobject \<Rightarrow> string \<Rightarrow> exn + solver_fn" where
  "getattr obj name = (case obj name of None \<Rightarrow> Inl (AttributeError name) | Some f \<Rightarrow> Inr f)"

text \<open>
  The object \<^verbatim>\<open>NormalIndPower()\<close> of statsmodels. The class has the methods
  \<^verbatim>\<open>power\<close>, \<^verbatim>\<open>plot_power\<close> and \<^verbatim>\<open>solve_power\<close>. Only \<^verbatim>\<open>solve_power\<close> accepts the
  keyword arguments of line 64, so it is the one method in the table; what it answers
  is the parameter. The class has no method \<^verbatim>\<open>solve_nobs_two_indep\<close>.
\<close>

definition NormalIndPower :: "solver_fn \<Rightarrow> pyobject" where
  "NormalIndPower solve_power = [''solve_power'' \<mapsto> solve_power]"

section \<open>calculate_sample_size\<close>

record sample_sizes =
  control_sample_size :: int
  variant_sample_size_per_variant :: int

text \<open>\<^verbatim>\<open>{'cr': 0.05, 'epc': 0.10}.get(sm_type)\<close>\<close>

definition mde_mapping :: "string \<Rightarrow> pyfloat option" where
  "mde_mapping sm_type =
     (if sm_type = ''cr'' then Some (Fin (5 / 100))
      else if sm_type = ''epc'' then Some (Fin (10 / 100))
      else None)"

text \<open>Lines 41 to 45: the relative MDE the request resolves to.\<close>

definition resolve_mde :: "string \<Rightarrow> pyfloat option \<Rightarrow> exn + pyfloat" where
  "resolve_mde sm_type mde_relative =
     (case mde_relative of
        Some m \<Rightarrow> Inr m
      | None \<Rightarrow>
          (case mde_mapping sm_type of
             None \<Rightarrow> Inl (ValueError (''Unknown sm_type: '' @ sm_type))
           | Some m \<Rightarrow> Inr m))"

text \<open>Lines 55 to 62: the effect size of the metric type.\<close>

definition effect_size_of ::
  "effectsize_fn \<Rightarrow> string \<Rightarrow> pyfloat \<Rightarrow> pyfloat option \<Rightarrow> pyfloat \<Rightarrow> exn + pyfloat" where
  "effect_size_of proportion_effectsize sm_type sm_control std_dev_control mde_absolute =
     (if sm_type = ''cr'' then
        proportion_effectsize sm_control (fadd sm_control mde_absolute)
      else if sm_type = ''epc'' then
        (case std_dev_control of
           None \<Rightarrow> Inl (ValueError ''std_dev_control is required for EPC calculations.'')
         | Some sd \<Rightarrow>
             if sd = Fin 0
             then Inl (ValueError ''std_dev_control is required for EPC calculations.'')
             else py_truediv mde_absolute sd)
      else Inl (ValueError (''sm_type must be 'cr' or 'epc'' @ [CHR 0x27])))"

text \<open>Lines 64 to 72: the method is looked up, called, and both sizes are rounded up.\<close>

definition solve_and_round ::
  "pyobject \<Rightarrow> pyfloat \<Rightarrow> pyfloat \<Rightarrow> pyfloat \<Rightarrow> pyfloat \<Rightarrow> exn + sample_sizes" where
  "solve_and_round analysis effect_size adjusted_alpha power' ratio =
     bindE (getattr analysis ''solve_nobs_two_indep'') (\<lambda>solve_nobs_two_indep.
     bindE (solve_nobs_two_indep effect_size adjusted_alpha power' ratio) (\<lambda>n_control.
     bindE (py_int_ceil n_control) (\<lambda>c.
     bindE (py_int_ceil (fmul n_control ratio)) (\<lambda>v.
     Inr \<lparr>control_sample_size = c, variant_sample_size_per_variant = v\<rparr>))))"

text \<open>
  The function. \<open>analysis\<close> is the object that line 53 creates, \<^verbatim>\<open>NormalIndPower()\<close>.
\<close>

definition calculate_sample_size ::
  "effectsize_fn \<Rightarrow> pyobject \<Rightarrow> string \<Rightarrow> pyfloat \<Rightarrow> pyfloat option \<Rightarrow> pyfloat option \<Rightarrow>
   pyfloat \<Rightarrow> pyfloat \<Rightarrow> pyfloat \<Rightarrow> int \<Rightarrow> exn + sample_sizes" where
  "calculate_sample_size proportion_effectsize analysis
     sm_type sm_control std_dev_control mde_relative power' alpha control_traffic_share
     num_variants =
     (if \<not> (fless (Fin 0) power' \<and> fless power' (Fin 1) \<and>
             fless (Fin 0) alpha \<and> fless alpha (Fin 1))
      then Inl (ValueError ''Power and alpha must be between 0 and 1.'')
      else
        bindE (py_truediv_int alpha num_variants) (\<lambda>adjusted_alpha.
        bindE (resolve_mde sm_type mde_relative) (\<lambda>mde.
        let mde_absolute = fmul sm_control mde in
        bindE (py_truediv_int (fsub (Fin 1) control_traffic_share) num_variants)
          (\<lambda>variant_share.
        bindE (py_truediv variant_share control_traffic_share) (\<lambda>ratio.
        bindE (effect_size_of proportion_effectsize sm_type sm_control std_dev_control
                 mde_absolute) (\<lambda>effect_size.
        solve_and_round analysis effect_size adjusted_alpha power' ratio))))))"

section \<open>analyze_results\<close>

record analysis_result =
  is_significant :: int
  p_value :: pyfloat
  observed_diff :: pyfloat

text \<open>
  Lines 84 to 91. The four fields are read in the order of the call, the test runs, and
  the observed difference is two Python divisions.
\<close>

definition cr_branch :: "ztest_fn \<Rightarrow> (string \<rightharpoonup> pyval) \<Rightarrow> exn + (pyfloat \<times> pyfloat)" where
  "cr_branch proportions_ztest kwargs =
     bindE (lookup kwargs ''variant_conv'') (\<lambda>variant_conv.
     bindE (lookup kwargs ''control_conv'') (\<lambda>control_conv.
     bindE (lookup kwargs ''variant_n'') (\<lambda>variant_n.
     bindE (lookup kwargs ''control_n'') (\<lambda>control_n.
     bindE (proportions_ztest variant_conv control_conv variant_n control_n) (\<lambda>(stat, p_val).
     bindE (py_div variant_conv variant_n) (\<lambda>rv.
     bindE (py_div control_conv control_n) (\<lambda>rc.
     Inr (p_val, fsub rv rc))))))))"

text \<open>Lines 93 to 100.\<close>

definition epc_branch :: "ttest_fn \<Rightarrow> (string \<rightharpoonup> pyval) \<Rightarrow> exn + (pyfloat \<times> pyfloat)" where
  "epc_branch ttest_ind_from_stats kwargs =
     bindE (lookup kwargs ''v_mean'') (\<lambda>v_mean.
     bindE (lookup kwargs ''v_std'') (\<lambda>v_std.
     bindE (lookup kwargs ''v_n'') (\<lambda>v_n.
     bindE (lookup kwargs ''c_mean'') (\<lambda>c_mean.
     bindE (lookup kwargs ''c_std'') (\<lambda>c_std.
     bindE (lookup kwargs ''c_n'') (\<lambda>c_n.
     bindE (ttest_ind_from_stats v_mean v_std v_n c_mean c_std c_n) (\<lambda>(stat, p_val).
     bindE (py_sub v_mean c_mean) (\<lambda>diff.
     Inr (p_val, diff)))))))))"

text \<open>
  The \<^verbatim>\<open>if\<close>/\<^verbatim>\<open>elif\<close> of lines 84 and 93 has no \<^verbatim>\<open>else\<close>: for any other metric type
  the locals \<^verbatim>\<open>p_val\<close> and \<^verbatim>\<open>diff\<close> stay unbound (\<open>None\<close> below).
\<close>

definition run_test ::
  "ztest_fn \<Rightarrow> ttest_fn \<Rightarrow> string \<Rightarrow> (string \<rightharpoonup> pyval) \<Rightarrow> exn + (pyfloat \<times> pyfloat) option" where
  "run_test proportions_ztest ttest_ind_from_stats sm_type kwargs =
     (if sm_type = ''cr'' then
        bindE (cr_branch proportions_ztest kwargs) (\<lambda>r. Inr (Some r))
      else if sm_type = ''epc'' then
        bindE (epc_branch ttest_ind_from_stats kwargs) (\<lambda>r. Inr (Some r))
      else Inr None)"

text \<open>Lines 102 to 106: the verdict is taken from \<^verbatim>\<open>p_val\<close> before it is rounded.\<close>

definition build_result :: "pyval \<Rightarrow> (pyfloat \<times> pyfloat) option \<Rightarrow> exn + analysis_result" where
  "build_result alpha locals =
     (case locals of
        None \<Rightarrow> Inl (UnboundLocalError ''p_val'')
      | Some (p_val, diff) \<Rightarrow>
          bindE (py_lt p_val alpha) (\<lambda>lt.
          Inr \<lparr>is_significant = (if lt then 1 else 0),
               p_value = round4 p_val,
               observed_diff = round4 diff\<rparr>))"

text \<open>The body of the \<^verbatim>\<open>try\<close>.\<close>

definition analyze_body ::
  "ztest_fn \<Rightarrow> ttest_fn \<Rightarrow> string \<Rightarrow> pyval \<Rightarrow> (string \<rightharpoonup> pyval) \<Rightarrow> exn + analysis_result" where
  "analyze_body proportions_ztest ttest_ind_from_stats sm_type alpha kwargs =
     bindE (run_test proportions_ztest ttest_ind_from_stats sm_type kwargs)
       (build_result alpha)"

text \<open>
  \<^verbatim>\<open>except Exception\<close> logs and returns \<^verbatim>\<open>None\<close>; an exception that does not derive
  from \<^verbatim>\<open>Exception\<close> passes through the handler. So the outcome is \<open>Inr (Some r)\<close> for a
  result, \<open>Inr None\<close> for the failure value and \<open>Inl e\<close> for an exception that reaches the
  caller.
\<close>

definition analyze_results ::
  "ztest_fn \<Rightarrow> ttest_fn \<Rightarrow> string \<Rightarrow> pyval \<Rightarrow> (string \<rightharpoonup> pyval) \<Rightarrow>
   exn + analysis_result option" where
  "analyze_results proportions_ztest ttest_ind_from_stats sm_type alpha kwargs =
     (case analyze_body proportions_ztest ttest_ind_from_stats sm_type alpha kwargs of
        Inr r \<Rightarrow> Inr (Some r)
      | Inl e \<Rightarrow> if is_Exception e then Inr None else Inl e)"

section \<open>Stand-ins for the library routines\<close>

text \<open>
  Concrete routines to run the model on: they fix what a library call answers, so that
  the engine's own code can be evaluated at a given request.
\<close>

definition effectsize_returns :: "pyfloat \<Rightarrow> effectsize_fn" where
  "effectsize_returns d prop1 prop2 = Inr d"

text \<open>A \<^verbatim>\<open>solve_power\<close> that answers \<open>n\<close>.\<close>

definition solver_returns :: "pyfloat \<Rightarrow> solver_fn" where
  "solver_returns n effect_size alpha' power' ratio = Inr n"

definition ztest_returns :: "pyfloat \<times> pyfloat \<Rightarrow> ztest_fn" where
  "ztest_returns r count1 count2 nobs1 nobs2 = Inr r"

definition ttest_returns :: "pyfloat \<times> pyfloat \<Rightarrow> ttest_fn" where
  "ttest_returns r mean1 std1 nobs1 mean2 std2 nobs2 = Inr r"

definition ztest_raises :: "exn \<Rightarrow> ztest_fn" where
  "ztest_raises e count1 count2 nobs1 nobs2 = Inl e"

definition ttest_raises :: "exn \<Rightarrow> ttest_fn" where
  "ttest_raises e mean1 std1 nobs1 mean2 std2 nobs2 = Inl e"

section \<open>Predicates of the specification\<close>

text \<open>A power or a significance level that is not inside the open interval \<open>(0, 1)\<close>.\<close>

definition outside_unit :: "pyfloat \<Rightarrow> bool" where
  "outside_unit x = (case x of Fin r \<Rightarrow> r \<le> 0 \<or> 1 \<le> r | _ \<Rightarrow> True)"

section \<open>Basic facts\<close>

lemma bindE_Inr [simp]: "bindE (Inr x) f = f x"
  by (simp add: bindE_def)

lemma bindE_Inl [simp]: "bindE (Inl e) f = Inl e"
  by (simp add: bindE_def)

lemma bindE_Inl_iff: "(bindE m f = Inl e) = (m = Inl e \<or> (\<exists>x. m = Inr x \<and> f x = Inl e))"
  by (cases m) (simp_all add: bindE_def)

lemma bindE_Inr_iff: "(bindE m f = Inr y) = (\<exists>x. m = Inr x \<and> f x = Inr y)"
  by (cases m) (simp_all add: bindE_def)

lemma in_unit_iff: "(fless (Fin 0) x \<and> fless x (Fin 1)) = (\<not> outside_unit x)"
  by (cases x) (auto simp: outside_unit_def)

lemma truediv_nonzero: "b \<noteq> Fin 0 \<Longrightarrow> py_truediv a b = Inr (fdiv a b)"
  by (simp add: py_truediv_def)

lemma truediv_Fin: "y \<noteq> 0 \<Longrightarrow> py_truediv (Fin x) (Fin y) = Inr (Fin (x / y))"
  by (simp add: py_truediv_def)

lemma truediv_int:
  "k \<noteq> 0 \<Longrightarrow> \<bar>k\<bar> < float_int_bound \<Longrightarrow>
   py_truediv_int a k = Inr (fdiv a (Fin (of_int k)))"
  by (simp add: py_truediv_int_def float_of_int_def py_truediv_def)

lemma truediv_int_overflow:
  "float_int_bound \<le> \<bar>k\<bar> \<Longrightarrow> py_truediv_int a k = Inl OverflowError"
  by (simp add: py_truediv_int_def float_of_int_def)

lemma one_in_float_range: "\<bar>1::int\<bar> < float_int_bound"
  by (simp add: float_int_bound_def)

lemma truediv_int_one: "py_truediv_int a 1 = Inr (fdiv a (Fin 1))"
  using truediv_int[of 1 a] one_in_float_range by simp

lemma getattr_NormalIndPower:
  "getattr (NormalIndPower solve_power) ''solve_nobs_two_indep'' =
     Inl (AttributeError ''solve_nobs_two_indep'')"
  by (simp add: getattr_def NormalIndPower_def)

lemma solve_and_round_NormalIndPower:
  "solve_and_round (NormalIndPower solve_power) d a p q =
     Inl (AttributeError ''solve_nobs_two_indep'')"
  by (simp add: solve_and_round_def getattr_NormalIndPower)

lemma resolve_mde_epc: "\<exists>mde. resolve_mde ''epc'' m = Inr mde"
  by (cases m) (simp_all add: resolve_mde_def mde_mapping_def)

section \<open>The planner: validation\<close>

text \<open>
  C6. A request whose power or significance level is not inside the open interval
  \<open>(0, 1)\<close> (0 and 1 themselves, anything beyond, NaN and the infinities) is rejected
  with the \<^verbatim>\<open>ValueError\<close> of line 35, whatever its other fields are: the check is the
  first statement of the function.
\<close>

theorem power_alpha_outside_unit_rejected:
  assumes "outside_unit power' \<or> outside_unit alpha"
  shows "calculate_sample_size pe sv t c sd m power' alpha s k =
           Inl (ValueError ''Power and alpha must be between 0 and 1.'')"
  using assms in_unit_iff[of power'] in_unit_iff[of alpha]
  by (auto simp: calculate_sample_size_def)

theorem power_alpha_outside_unit_rejected_witness:
  "calculate_sample_size (effectsize_returns (Fin 1)) (NormalIndPower (solver_returns (Fin 100)))
     ''cr'' (Fin (2 / 100)) None None (Fin 0) (Fin (5 / 100)) (Fin (8 / 10)) 1 =
     Inl (ValueError ''Power and alpha must be between 0 and 1.'') \<and>
   calculate_sample_size (effectsize_returns (Fin 1)) (NormalIndPower (solver_returns (Fin 100)))
     ''cr'' (Fin (2 / 100)) None None (Fin 1) (Fin (5 / 100)) (Fin (8 / 10)) 1 =
     Inl (ValueError ''Power and alpha must be between 0 and 1.'') \<and>
   calculate_sample_size (effectsize_returns (Fin 1)) (NormalIndPower (solver_returns (Fin 100)))
     ''cr'' (Fin (2 / 100)) None None (Fin (8 / 10)) (Fin 0) (Fin (8 / 10)) 1 =
     Inl (ValueError ''Power and alpha must be between 0 and 1.'') \<and>
   calculate_sample_size (effectsize_returns (Fin 1)) (NormalIndPower (solver_returns (Fin 100)))
     ''cr'' (Fin (2 / 100)) None None (Fin (8 / 10)) (Fin 1) (Fin (8 / 10)) 1 =
     Inl (ValueError ''Power and alpha must be between 0 and 1.'')"
  using
    power_alpha_outside_unit_rejected[of "Fin 0" "Fin (5 / 100)"
      "effectsize_returns (Fin 1)" "NormalIndPower (solver_returns (Fin 100))" "''cr''"
      "Fin (2 / 100)" None None "Fin (8 / 10)" 1]
    power_alpha_outside_unit_rejected[of "Fin 1" "Fin (5 / 100)"
      "effectsize_returns (Fin 1)" "NormalIndPower (solver_returns (Fin 100))" "''cr''"
      "Fin (2 / 100)" None None "Fin (8 / 10)" 1]
    power_alpha_outside_unit_rejected[of "Fin (8 / 10)" "Fin 0"
      "effectsize_returns (Fin 1)" "NormalIndPower (solver_returns (Fin 100))" "''cr''"
      "Fin (2 / 100)" None None "Fin (8 / 10)" 1]
    power_alpha_outside_unit_rejected[of "Fin (8 / 10)" "Fin 1"
      "effectsize_returns (Fin 1)" "NormalIndPower (solver_returns (Fin 100))" "''cr''"
      "Fin (2 / 100)" None None "Fin (8 / 10)" 1]
  by (simp add: outside_unit_def)

text \<open>
  The divisions of lines 38, 50 and 51 come before the checks of lines 58 to 62. They
  raise \<^verbatim>\<open>ZeroDivisionError\<close> for a number of variants or a control traffic share of
  zero, and \<^verbatim>\<open>OverflowError\<close> for a number of variants that no float can hold.
\<close>

lemma huge_num_variants_overflows:
  "calculate_sample_size pe an ''epc'' c None None (Fin (8 / 10)) (Fin (5 / 100)) (Fin (8 / 10))
     (10 ^ 400) = Inl OverflowError"
proof -
  have "float_int_bound \<le> \<bar>10 ^ 400 :: int\<bar>"
    by (simp add: float_int_bound_def)
  then show ?thesis
    by (simp add: calculate_sample_size_def truediv_int_overflow)
qed

text \<open>
  C7. An EPC request without a control standard deviation is rejected with a
  \<^verbatim>\<open>ValueError\<close>: the one of line 59 when power and significance level are inside
  \<open>(0, 1)\<close>, the one of line 35 otherwise. This holds for a request that reaches the
  check: one whose number of variants is not zero and within the range of a float, and
  whose control traffic share is not zero.
\<close>

theorem epc_without_std_dev_rejected:
  assumes "k \<noteq> 0" and "\<bar>k\<bar> < float_int_bound" and "s \<noteq> Fin 0"
  shows "calculate_sample_size pe sv ''epc'' c None m power' alpha s k =
           Inl (ValueError
             (if fless (Fin 0) power' \<and> fless power' (Fin 1) \<and>
                 fless (Fin 0) alpha \<and> fless alpha (Fin 1)
              then ''std_dev_control is required for EPC calculations.''
              else ''Power and alpha must be between 0 and 1.''))"
proof -
  obtain mde where "resolve_mde ''epc'' m = Inr mde"
    using resolve_mde_epc by blast
  then show ?thesis
    using assms
    by (simp add: calculate_sample_size_def truediv_int truediv_nonzero effect_size_of_def
        Let_def)
qed

theorem epc_without_std_dev_rejected_witness:
  "(1::int) \<noteq> 0 \<and> \<bar>1::int\<bar> < float_int_bound \<and> Fin (8 / 10) \<noteq> Fin 0 \<and>
   calculate_sample_size (effectsize_returns (Fin 1)) (NormalIndPower (solver_returns (Fin 100)))
     ''epc'' (Fin 5) None None (Fin (8 / 10)) (Fin (5 / 100)) (Fin (8 / 10)) 1 =
     Inl (ValueError ''std_dev_control is required for EPC calculations.'')"
  using epc_without_std_dev_rejected[of 1 "Fin (8 / 10)"
      "effectsize_returns (Fin 1)" "NormalIndPower (solver_returns (Fin 100))" "Fin 5" None
      "Fin (8 / 10)" "Fin (5 / 100)"] one_in_float_range
  by simp

text \<open>
  C10. A control standard deviation of 0 is falsy, so line 58 treats it as absent: the
  planner does on it exactly what it does without a standard deviation, whatever the
  other fields are, and the division of line 60 never raises \<^verbatim>\<open>ZeroDivisionError\<close>.
  For a request that reaches line 58 (power and significance level inside \<open>(0, 1)\<close>,
  number of variants not zero and within the range of a float, control traffic share
  not zero) the outcome is the \<^verbatim>\<open>ValueError\<close> of line 59.
\<close>

theorem zero_std_dev_treated_as_absent:
  assumes "fless (Fin 0) power' \<and> fless power' (Fin 1)"
    and "fless (Fin 0) alpha \<and> fless alpha (Fin 1)"
    and "k \<noteq> 0" and "\<bar>k\<bar> < float_int_bound" and "s \<noteq> Fin 0"
  shows "calculate_sample_size pe sv ''epc'' c (Some (Fin 0)) m power' alpha s k =
           Inl (ValueError ''std_dev_control is required for EPC calculations.'') \<and>
         (\<forall>pw' al' s' k'.
            calculate_sample_size pe sv ''epc'' c (Some (Fin 0)) m pw' al' s' k' =
            calculate_sample_size pe sv ''epc'' c None m pw' al' s' k') \<and>
         effect_size_of pe ''epc'' c sdo mabs \<noteq> Inl ZeroDivisionError"
proof -
  obtain mde where "resolve_mde ''epc'' m = Inr mde"
    using resolve_mde_epc by blast
  then have "calculate_sample_size pe sv ''epc'' c (Some (Fin 0)) m power' alpha s k =
           Inl (ValueError ''std_dev_control is required for EPC calculations.'')"
    using assms
    by (simp add: calculate_sample_size_def truediv_int truediv_nonzero effect_size_of_def
        Let_def)
  moreover have "calculate_sample_size pe sv ''epc'' c (Some (Fin 0)) m pw' al' s' k' =
           calculate_sample_size pe sv ''epc'' c None m pw' al' s' k'" for pw' al' s' k'
    by (simp add: calculate_sample_size_def effect_size_of_def)
  moreover have "effect_size_of pe ''epc'' c sdo mabs \<noteq> Inl ZeroDivisionError"
    by (cases sdo) (simp_all add: effect_size_of_def py_truediv_def)
  ultimately show ?thesis by simp
qed

theorem zero_std_dev_treated_as_absent_witness:
  "fless (Fin 0) (Fin (8 / 10)) \<and> fless (Fin (8 / 10)) (Fin 1) \<and>
   fless (Fin 0) (Fin (5 / 100)) \<and> fless (Fin (5 / 100)) (Fin 1) \<and>
   (1::int) \<noteq> 0 \<and> \<bar>1::int\<bar> < float_int_bound \<and> Fin (8 / 10) \<noteq> Fin 0 \<and>
   calculate_sample_size (effectsize_returns (Fin 1)) (NormalIndPower (solver_returns (Fin 100)))
     ''epc'' (Fin 5) (Some (Fin 0)) None (Fin (8 / 10)) (Fin (5 / 100)) (Fin (8 / 10)) 1 =
     Inl (ValueError ''std_dev_control is required for EPC calculations.'')"
  using zero_std_dev_treated_as_absent[where power' = "Fin (8 / 10)"
      and alpha = "Fin (5 / 100)" and k = 1 and s = "Fin (8 / 10)"
      and pe = "effectsize_returns (Fin 1)"
      and sv = "NormalIndPower (solver_returns (Fin 100))" and c = "Fin 5" and m = None,
      THEN conjunct1]
    one_in_float_range
  by simp

section \<open>The analyzer\<close>

subsection \<open>What the body of the try can raise\<close>

lemma lookup_raises: "lookup kw k = Inl e \<Longrightarrow> is_Exception e"
  by (auto simp: lookup_def split: option.splits)

lemma py_div_raises: "py_div a b = Inl e \<Longrightarrow> is_Exception e"
  by (auto simp: py_div_def py_truediv_def split: option.splits if_splits)

lemma py_sub_raises: "py_sub a b = Inl e \<Longrightarrow> is_Exception e"
  by (auto simp: py_sub_def split: option.splits)

lemma py_lt_raises: "py_lt a b = Inl e \<Longrightarrow> is_Exception e"
  by (auto simp: py_lt_def split: option.splits)

lemma cr_branch_raises:
  assumes "\<And>a b c d e. zt a b c d = Inl e \<Longrightarrow> is_Exception e"
    and "cr_branch zt kw = Inl e"
  shows "is_Exception e"
  using assms(2) unfolding cr_branch_def
  by (auto simp: bindE_Inl_iff dest: lookup_raises py_div_raises assms(1))

lemma epc_branch_raises:
  assumes "\<And>a b c d f g e. tt a b c d f g = Inl e \<Longrightarrow> is_Exception e"
    and "epc_branch tt kw = Inl e"
  shows "is_Exception e"
  using assms(2) unfolding epc_branch_def
  by (auto simp: bindE_Inl_iff dest: lookup_raises py_sub_raises assms(1))

lemma build_result_raises: "build_result alpha l = Inl e \<Longrightarrow> is_Exception e"
  by (auto simp: build_result_def bindE_Inl_iff split: option.splits dest: py_lt_raises)

lemma analyze_body_raises:
  assumes "\<And>a b c d e. zt a b c d = Inl e \<Longrightarrow> is_Exception e"
    and "\<And>a b c d f g e. tt a b c d f g = Inl e \<Longrightarrow> is_Exception e"
    and "analyze_body zt tt t alpha kw = Inl e"
  shows "is_Exception e"
  using assms(3) cr_branch_raises[of zt kw e, OF assms(1)]
    epc_branch_raises[of tt kw e, OF assms(2)]
  unfolding analyze_body_def run_test_def
  by (auto simp: bindE_Inl_iff split: if_splits dest: build_result_raises)

lemma analyze_results_cases:
  "analyze_results zt tt t alpha kw =
     (case bindE (run_test zt tt t kw) (build_result alpha) of
        Inr r \<Rightarrow> Inr (Some r)
      | Inl e \<Rightarrow> if is_Exception e then Inr None else Inl e)"
  by (simp add: analyze_results_def analyze_body_def)

lemma py_div_zero:
  assumes "as_float n = Some (Fin 0)"
  shows "\<exists>e. py_div a n = Inl e \<and> is_Exception e"
  using assms by (auto simp: py_div_def py_truediv_def split: option.splits)

lemma cr_branch_zero_count:
  assumes lib: "\<And>a b c d e. zt a b c d = Inl e \<Longrightarrow> is_Exception e"
    and z: "as_float n = Some (Fin 0)"
    and k: "kw ''variant_n'' = Some n \<or> kw ''control_n'' = Some n"
  shows "\<exists>e. cr_branch zt kw = Inl e \<and> is_Exception e"
proof (cases "cr_branch zt kw")
  case (Inl e)
  then have "is_Exception e"
    unfolding cr_branch_def
    by (auto simp: bindE_Inl_iff dest: lookup_raises py_div_raises lib)
  with Inl show ?thesis by simp
next
  case (Inr r)
  then obtain vc cc vn cn rv rc where
    l: "lookup kw ''variant_n'' = Inr vn" "lookup kw ''control_n'' = Inr cn"
    and d: "py_div vc vn = Inr rv" "py_div cc cn = Inr rc"
    unfolding cr_branch_def by (auto simp: bindE_Inr_iff)
  from l k have "vn = n \<or> cn = n"
    by (auto simp: lookup_def split: option.splits)
  with d py_div_zero[OF z, of vc] py_div_zero[OF z, of cc] show ?thesis by auto
qed

subsection \<open>Failure handling\<close>

text \<open>
  C3. Whatever the metric type, the significance level and the keyword arguments are
  (fields missing, of the wrong type, zero), \<^verbatim>\<open>analyze_results\<close> returns: a result
  or the failure value. Every exception the body raises is caught and becomes the
  failure value. The handler is \<^verbatim>\<open>except Exception\<close>, so this holds for library
  routines that raise exceptions derived from \<^verbatim>\<open>Exception\<close>, as a computation does.
\<close>

theorem analyze_never_raises:
  assumes "\<forall>a b c d e. zt a b c d = Inl e \<longrightarrow> is_Exception e"
    and "\<forall>a b c d f g e. tt a b c d f g = Inl e \<longrightarrow> is_Exception e"
  shows "(\<exists>r. analyze_results zt tt t alpha kw = Inr r) \<and>
         (\<forall>e. analyze_body zt tt t alpha kw = Inl e \<longrightarrow>
              analyze_results zt tt t alpha kw = Inr None)"
proof -
  have "is_Exception e" if "analyze_body zt tt t alpha kw = Inl e" for e
    using analyze_body_raises[of zt tt t alpha kw e] assms that by blast
  then show ?thesis
    by (cases "analyze_body zt tt t alpha kw") (simp_all add: analyze_results_def)
qed

theorem analyze_never_raises_witness:
  "is_Exception (OtherException ''nobs is zero'') \<and>
   analyze_body (ztest_raises (OtherException ''nobs is zero'')) (ttest_returns (NaN, NaN))
     ''cr'' (PStr ''0.05'')
     [''control_n'' \<mapsto> PInt 0, ''control_conv'' \<mapsto> PInt 0,
      ''variant_n'' \<mapsto> PNone, ''variant_conv'' \<mapsto> PInt 3] =
     Inl (OtherException ''nobs is zero'') \<and>
   analyze_results (ztest_raises (OtherException ''nobs is zero'')) (ttest_returns (NaN, NaN))
     ''cr'' (PStr ''0.05'')
     [''control_n'' \<mapsto> PInt 0, ''control_conv'' \<mapsto> PInt 0,
      ''variant_n'' \<mapsto> PNone, ''variant_conv'' \<mapsto> PInt 3] = Inr None"
proof -
  have z: "\<forall>a b c d e. ztest_raises (OtherException ''nobs is zero'') a b c d = Inl e \<longrightarrow>
      is_Exception e"
    by (auto simp: ztest_raises_def)
  have t: "\<forall>a b c d f g e. ttest_returns (NaN, NaN) a b c d f g = Inl e \<longrightarrow> is_Exception e"
    by (simp add: ttest_returns_def)
  have b: "analyze_body (ztest_raises (OtherException ''nobs is zero''))
     (ttest_returns (NaN, NaN)) ''cr'' (PStr ''0.05'')
     [''control_n'' \<mapsto> PInt 0, ''control_conv'' \<mapsto> PInt 0,
      ''variant_n'' \<mapsto> PNone, ''variant_conv'' \<mapsto> PInt 3] =
     Inl (OtherException ''nobs is zero'')"
    by (simp add: analyze_body_def run_test_def cr_branch_def lookup_def ztest_raises_def)
  from analyze_never_raises[OF z t, of "''cr''" "PStr ''0.05''"
      "[''control_n'' \<mapsto> PInt 0, ''control_conv'' \<mapsto> PInt 0,
        ''variant_n'' \<mapsto> PNone, ''variant_conv'' \<mapsto> PInt 3]"] b
  show ?thesis by simp
qed

text \<open>
  C9. For a metric type that is neither \<^verbatim>\<open>'cr'\<close> nor \<^verbatim>\<open>'epc'\<close> no branch runs, the
  read of the unbound \<^verbatim>\<open>p_val\<close> on line 103 raises \<^verbatim>\<open>UnboundLocalError\<close>, and the
  handler turns it into the failure value: no result, no exception.
\<close>

theorem unknown_metric_type_fails:
  assumes "t \<noteq> ''cr''" and "t \<noteq> ''epc''"
  shows "analyze_results zt tt t alpha kw = Inr None"
  using assms
  by (simp add: analyze_results_cases run_test_def build_result_def)

theorem unknown_metric_type_fails_witness:
  "''ctr'' \<noteq> ''cr'' \<and> ''ctr'' \<noteq> ''epc'' \<and>
   analyze_results (ztest_returns (Fin 3, Fin (1 / 1000))) (ttest_returns (Fin 3, Fin (1 / 1000)))
     ''ctr'' (PFloat (Fin (5 / 100)))
     [''control_n'' \<mapsto> PInt 1000, ''control_conv'' \<mapsto> PInt 20,
      ''variant_n'' \<mapsto> PInt 1000, ''variant_conv'' \<mapsto> PInt 100] = Inr None"
  using unknown_metric_type_fails[of "''ctr''"
      "ztest_returns (Fin 3, Fin (1 / 1000))" "ttest_returns (Fin 3, Fin (1 / 1000))"
      "PFloat (Fin (5 / 100))"
      "[''control_n'' \<mapsto> PInt 1000, ''control_conv'' \<mapsto> PInt 20,
        ''variant_n'' \<mapsto> PInt 1000, ''variant_conv'' \<mapsto> PInt 100]"]
  by simp

subsection \<open>The verdict\<close>

text \<open>
  C4. When \<^verbatim>\<open>analyze_results\<close> returns a result, the test of the metric type has
  returned a p-value \<open>p\<close> and the significance level is a number \<open>a\<close>; the verdict is 1
  exactly when \<open>p < a\<close> for the p-value as the test returned it, and 0 otherwise. The
  reported \<^verbatim>\<open>p_value\<close> and \<^verbatim>\<open>observed_diff\<close> are the rounded ones; the verdict does not
  depend on them.
\<close>

theorem verdict_from_unrounded_p_value:
  assumes "analyze_results zt tt t alpha kw = Inr (Some r)"
  shows "\<exists>p d a. run_test zt tt t kw = Inr (Some (p, d)) \<and> as_float alpha = Some a \<and>
           (is_significant r = 1 \<longleftrightarrow> fless p a) \<and>
           (is_significant r = 0 \<longleftrightarrow> \<not> fless p a) \<and>
           p_value r = round4 p \<and> observed_diff r = round4 d"
proof -
  from assms have b: "analyze_body zt tt t alpha kw = Inr r"
    by (auto simp: analyze_results_def split: sum.splits if_splits)
  then obtain l where l: "run_test zt tt t kw = Inr l" and br: "build_result alpha l = Inr r"
    by (auto simp: analyze_body_def bindE_Inr_iff)
  from br obtain p d where pd: "l = Some (p, d)"
    by (cases l) (auto simp: build_result_def)
  from br pd obtain lt where lt: "py_lt p alpha = Inr lt"
    and r: "r = \<lparr>is_significant = (if lt then 1 else 0), p_value = round4 p,
                 observed_diff = round4 d\<rparr>"
    by (auto simp: build_result_def bindE_Inr_iff)
  from lt obtain a where a: "as_float alpha = Some a" and "lt = fless p a"
    by (auto simp: py_lt_def split: option.splits)
  with l pd r show ?thesis by auto
qed

text \<open>
  The witness is a request where rounding would change the verdict if it came first: the
  p-value 0.04996 is below 0.05 and is reported as 0.05.
\<close>

theorem verdict_from_unrounded_p_value_witness:
  "analyze_results (ztest_returns (Fin 1, Fin (4996 / 100000))) (ttest_returns (NaN, NaN))
     ''cr'' (PFloat (Fin (5 / 100)))
     [''control_n'' \<mapsto> PInt 1000, ''control_conv'' \<mapsto> PInt 20,
      ''variant_n'' \<mapsto> PInt 1000, ''variant_conv'' \<mapsto> PInt 30] =
     Inr (Some \<lparr>is_significant = 1, p_value = Fin (5 / 100), observed_diff = Fin (1 / 100)\<rparr>) \<and>
   (\<exists>p d a. run_test (ztest_returns (Fin 1, Fin (4996 / 100000))) (ttest_returns (NaN, NaN))
       ''cr''
       [''control_n'' \<mapsto> PInt 1000, ''control_conv'' \<mapsto> PInt 20,
        ''variant_n'' \<mapsto> PInt 1000, ''variant_conv'' \<mapsto> PInt 30] = Inr (Some (p, d)) \<and>
      as_float (PFloat (Fin (5 / 100))) = Some a \<and> fless p a \<and>
      \<not> fless (round4 p) a)"
proof -
  have h: "analyze_results (ztest_returns (Fin 1, Fin (4996 / 100000)))
     (ttest_returns (NaN, NaN)) ''cr'' (PFloat (Fin (5 / 100)))
     [''control_n'' \<mapsto> PInt 1000, ''control_conv'' \<mapsto> PInt 20,
      ''variant_n'' \<mapsto> PInt 1000, ''variant_conv'' \<mapsto> PInt 30] =
     Inr (Some \<lparr>is_significant = 1, p_value = Fin (5 / 100), observed_diff = Fin (1 / 100)\<rparr>)"
    by (simp add: analyze_results_cases run_test_def build_result_def cr_branch_def lookup_def
        ztest_returns_def py_div_def py_truediv_def py_lt_def fsub_def round_half_even_def
        Let_def)
  from verdict_from_unrounded_p_value[OF h] obtain p d a where
    "run_test (ztest_returns (Fin 1, Fin (4996 / 100000))) (ttest_returns (NaN, NaN)) ''cr''
       [''control_n'' \<mapsto> PInt 1000, ''control_conv'' \<mapsto> PInt 20,
        ''variant_n'' \<mapsto> PInt 1000, ''variant_conv'' \<mapsto> PInt 30] = Inr (Some (p, d))"
    "as_float (PFloat (Fin (5 / 100))) = Some a" "fless p a" "round4 p = Fin (5 / 100)"
    by auto
  then show ?thesis using h by auto
qed

subsection \<open>Degenerate inputs\<close>

text \<open>
  C1, as the code has it. A CR request with a zero observation count gets the failure
  value: whatever the z-test does, a division of line 91 raises, and the handler
  catches it. For an EPC request the engine has no check of its own on the standard
  deviations, the means or the counts: with the six fields present, the two means and
  the significance level numbers, the outcome is the failure value exactly when the
  t-test raises, and a result whenever the t-test returns, with verdict 0 and a NaN
  \<^verbatim>\<open>p_value\<close> when the p-value it returns is NaN.
\<close>

theorem degenerate_inputs:
  assumes "\<forall>a b c d e. zt a b c d = Inl e \<longrightarrow> is_Exception e"
  shows "((\<exists>n. (kw ''variant_n'' = Some n \<or> kw ''control_n'' = Some n) \<and>
               as_float n = Some (Fin 0)) \<longrightarrow>
            analyze_results zt tt ''cr'' alpha kw = Inr None) \<and>
         (kw ''v_mean'' = Some vm \<and> kw ''v_std'' = Some vs \<and> kw ''v_n'' = Some vn \<and>
          kw ''c_mean'' = Some cm \<and> kw ''c_std'' = Some cs \<and> kw ''c_n'' = Some cn \<and>
          as_float vm = Some x \<and> as_float cm = Some y \<and> as_float alpha = Some a \<longrightarrow>
            analyze_results zt tt ''epc'' alpha kw =
              (case tt vm vs vn cm cs cn of
                 Inl e \<Rightarrow> if is_Exception e then Inr None else Inl e
               | Inr (stat, p) \<Rightarrow>
                   Inr (Some \<lparr>is_significant = (if fless p a then 1 else 0),
                              p_value = round4 p,
                              observed_diff = round4 (fsub x y)\<rparr>)))"
proof (intro conjI impI)
  assume "\<exists>n. (kw ''variant_n'' = Some n \<or> kw ''control_n'' = Some n) \<and>
              as_float n = Some (Fin 0)"
  then obtain n where n: "kw ''variant_n'' = Some n \<or> kw ''control_n'' = Some n"
      "as_float n = Some (Fin 0)"
    by blast
  from cr_branch_zero_count[of zt n kw] assms n
  obtain e where "cr_branch zt kw = Inl e" "is_Exception e"
    by blast
  then show "analyze_results zt tt ''cr'' alpha kw = Inr None"
    by (simp add: analyze_results_cases run_test_def)
next
  assume h: "kw ''v_mean'' = Some vm \<and> kw ''v_std'' = Some vs \<and> kw ''v_n'' = Some vn \<and>
          kw ''c_mean'' = Some cm \<and> kw ''c_std'' = Some cs \<and> kw ''c_n'' = Some cn \<and>
          as_float vm = Some x \<and> as_float cm = Some y \<and> as_float alpha = Some a"
  show "analyze_results zt tt ''epc'' alpha kw =
              (case tt vm vs vn cm cs cn of
                 Inl e \<Rightarrow> if is_Exception e then Inr None else Inl e
               | Inr (stat, p) \<Rightarrow>
                   Inr (Some \<lparr>is_significant = (if fless p a then 1 else 0),
                              p_value = round4 p,
                              observed_diff = round4 (fsub x y)\<rparr>))"
    using h
    by (cases "tt vm vs vn cm cs cn")
       (auto simp: analyze_results_cases run_test_def epc_branch_def lookup_def py_sub_def
          build_result_def py_lt_def)
qed

theorem degenerate_inputs_witness:
  "analyze_results (ztest_returns (NaN, NaN)) (ttest_raises (OtherException ''nobs is zero''))
     ''cr'' (PFloat (Fin (5 / 100)))
     [''control_n'' \<mapsto> PInt 0, ''control_conv'' \<mapsto> PInt 0,
      ''variant_n'' \<mapsto> PInt 1000, ''variant_conv'' \<mapsto> PInt 30] = Inr None \<and>
   analyze_results (ztest_returns (NaN, NaN)) (ttest_raises (OtherException ''nobs is zero''))
     ''epc'' (PFloat (Fin (5 / 100)))
     [''c_mean'' \<mapsto> PFloat (Fin 5), ''c_std'' \<mapsto> PFloat (Fin 1), ''c_n'' \<mapsto> PInt 0,
      ''v_mean'' \<mapsto> PFloat (Fin 5), ''v_std'' \<mapsto> PFloat (Fin 1), ''v_n'' \<mapsto> PInt 100] =
     Inr None"
proof -
  have z: "\<forall>a b c d e. ztest_returns (NaN, NaN) a b c d = Inl e \<longrightarrow> is_Exception e"
    by (simp add: ztest_returns_def)
  have 1: "analyze_results (ztest_returns (NaN, NaN))
     (ttest_raises (OtherException ''nobs is zero'')) ''cr'' (PFloat (Fin (5 / 100)))
     [''control_n'' \<mapsto> PInt 0, ''control_conv'' \<mapsto> PInt 0,
      ''variant_n'' \<mapsto> PInt 1000, ''variant_conv'' \<mapsto> PInt 30] = Inr None"
    by (rule degenerate_inputs[OF z, THEN conjunct1, THEN mp])
       (rule exI[of _ "PInt 0"], simp)
  from degenerate_inputs[OF z,
      where kw = "[''c_mean'' \<mapsto> PFloat (Fin 5), ''c_std'' \<mapsto> PFloat (Fin 1),
                  ''c_n'' \<mapsto> PInt 0, ''v_mean'' \<mapsto> PFloat (Fin 5),
                  ''v_std'' \<mapsto> PFloat (Fin 1), ''v_n'' \<mapsto> PInt 100]"
        and vm = "PFloat (Fin 5)" and vs = "PFloat (Fin 1)" and vn = "PInt 100"
        and cm = "PFloat (Fin 5)" and cs = "PFloat (Fin 1)" and cn = "PInt 0"
        and x = "Fin 5" and y = "Fin 5"
        and alpha = "PFloat (Fin (5 / 100))" and a = "Fin (5 / 100)"
        and tt = "ttest_raises (OtherException ''nobs is zero'')"]
  have 2: "analyze_results (ztest_returns (NaN, NaN))
     (ttest_raises (OtherException ''nobs is zero'')) ''epc'' (PFloat (Fin (5 / 100)))
     [''c_mean'' \<mapsto> PFloat (Fin 5), ''c_std'' \<mapsto> PFloat (Fin 1), ''c_n'' \<mapsto> PInt 0,
      ''v_mean'' \<mapsto> PFloat (Fin 5), ''v_std'' \<mapsto> PFloat (Fin 1), ''v_n'' \<mapsto> PInt 100] =
     Inr None"
    by (simp add: ttest_raises_def)
  from 1 2 show ?thesis by blast
qed

text \<open>
  The claim as the specification states it fails for EPC: with both standard deviations
  zero and equal means the Welch statistic is the floating-point quotient 0/0, which is
  NaN and raises nothing. On a t-test that answers NaN the engine returns a result with
  the verdict "not significant" and a NaN p-value, not the failure value.
\<close>

theorem degenerate_epc_returns_nan_result:
  "analyze_results (ztest_returns (NaN, NaN)) (ttest_returns (NaN, NaN))
     ''epc'' (PFloat (Fin (5 / 100)))
     [''c_mean'' \<mapsto> PFloat (Fin 5), ''c_std'' \<mapsto> PFloat (Fin 0), ''c_n'' \<mapsto> PInt 100,
      ''v_mean'' \<mapsto> PFloat (Fin 5), ''v_std'' \<mapsto> PFloat (Fin 0), ''v_n'' \<mapsto> PInt 100] =
   Inr (Some \<lparr>is_significant = 0, p_value = NaN, observed_diff = Fin 0\<rparr>)"
  by (simp add: analyze_results_cases run_test_def epc_branch_def lookup_def py_sub_def
      build_result_def py_lt_def ttest_returns_def fsub_def round_half_even_def)

section \<open>The planner: the solver call\<close>

text \<open>
  Line 64 looks up \<^verbatim>\<open>solve_nobs_two_indep\<close> on the \<^verbatim>\<open>NormalIndPower\<close> object, which has no
  such method. So the planner never returns sizes: a request stops at one of the checks
  or divisions before, in the effect-size routine, or at the \<^verbatim>\<open>AttributeError\<close> of
  line 64.
\<close>

lemma planner_never_returns_sizes:
  "calculate_sample_size pe (NormalIndPower solve_power) t c sdo m pw al s k \<noteq> Inr r"
  by (auto simp: calculate_sample_size_def solve_and_round_NormalIndPower bindE_Inr_iff
      Let_def)

lemma epc_request_reaches_solver_call:
  assumes "0 < pw" "pw < 1" "0 < a" "a < 1"
    and "k \<noteq> 0" "\<bar>k\<bar> < float_int_bound" and "s \<noteq> 0" and "sd \<noteq> 0"
  shows "calculate_sample_size pe an ''epc'' (Fin c) (Some (Fin sd)) (Some (Fin x))
           (Fin pw) (Fin a) (Fin s) k =
         solve_and_round an (Fin (c * x / sd)) (Fin (a / of_int k)) (Fin pw)
           (Fin ((1 - s) / of_int k / s))"
  using assms
  by (simp add: calculate_sample_size_def truediv_int truediv_Fin resolve_mde_def
      effect_size_of_def fsub_def Let_def)

lemma cr_request_reaches_solver_call:
  assumes "0 < pw" "pw < 1" "0 < a" "a < 1"
    and "k \<noteq> 0" "\<bar>k\<bar> < float_int_bound" and "s \<noteq> 0"
  shows "calculate_sample_size pe an ''cr'' (Fin c) sdo (Some (Fin x))
           (Fin pw) (Fin a) (Fin s) k =
         bindE (pe (Fin c) (Fin (c + c * x)))
           (\<lambda>d. solve_and_round an d (Fin (a / of_int k)) (Fin pw)
                  (Fin ((1 - s) / of_int k / s)))"
  using assms
  by (simp add: calculate_sample_size_def truediv_int truediv_Fin resolve_mde_def
      effect_size_of_def fsub_def Let_def)

text \<open>
  C2, as the code has it. The planner has no check on the relative MDE. A request with
  an explicit relative MDE \<open>x\<close>, any number, \<open>x \<le> 0\<close> included, that passes the checks
  the planner does have (power and significance level inside \<open>(0, 1)\<close>, number of
  variants not zero and within the float range, control traffic share not zero, for EPC
  a standard deviation that is not zero) reaches the solver call of line 64: for EPC
  with the effect size \<open>baseline * x / std\<close>, for CR with the answer of the effect-size
  routine on \<open>baseline\<close> and \<open>baseline + baseline * x\<close>. A default relative MDE is
  positive, so only an explicit one can be \<open>\<le> 0\<close>.
\<close>

theorem relative_mde_not_checked:
  assumes "0 < pw" "pw < 1" "0 < a" "a < 1"
    and "k \<noteq> 0" "\<bar>k\<bar> < float_int_bound" and "s \<noteq> 0" and "sd \<noteq> 0"
  shows "calculate_sample_size pe an ''epc'' (Fin c) (Some (Fin sd)) (Some (Fin x))
           (Fin pw) (Fin a) (Fin s) k =
         solve_and_round an (Fin (c * x / sd)) (Fin (a / of_int k)) (Fin pw)
           (Fin ((1 - s) / of_int k / s)) \<and>
         calculate_sample_size pe an ''cr'' (Fin c) sdo (Some (Fin x))
           (Fin pw) (Fin a) (Fin s) k =
         bindE (pe (Fin c) (Fin (c + c * x)))
           (\<lambda>d. solve_and_round an d (Fin (a / of_int k)) (Fin pw)
                  (Fin ((1 - s) / of_int k / s))) \<and>
         (\<forall>t y. resolve_mde t None = Inr (Fin y) \<longrightarrow> 0 < y)"
proof -
  have "0 < y" if "resolve_mde t None = Inr (Fin y)" for t y
    using that by (auto simp: resolve_mde_def mde_mapping_def split: if_splits)
  with epc_request_reaches_solver_call[OF assms, of pe an c x]
    cr_request_reaches_solver_call[OF assms(1-7), of pe an c sdo x]
  show ?thesis by blast
qed

theorem relative_mde_not_checked_witness:
  "calculate_sample_size (effectsize_returns NaN) (NormalIndPower (solver_returns NaN))
     ''epc'' (Fin 10) (Some (Fin 2)) (Some (Fin 0)) (Fin (8 / 10)) (Fin (5 / 100))
     (Fin (8 / 10)) 1 =
   solve_and_round (NormalIndPower (solver_returns NaN)) (Fin 0) (Fin (5 / 100))
     (Fin (8 / 10)) (Fin (1 / 4))"
  using relative_mde_not_checked[where pw = "8 / 10" and a = "5 / 100" and k = 1
      and s = "8 / 10" and sd = 2 and c = 10 and x = 0
      and pe = "effectsize_returns NaN" and an = "NormalIndPower (solver_returns NaN)"]
    one_in_float_range
  by simp

text \<open>
  The claim as the specification states it fails: an EPC request with relative MDE
  \<open>-0.1\<close> and otherwise ordinary fields is not rejected with a \<^verbatim>\<open>ValueError\<close>. It gets
  as far as line 64 and fails there, as every request does that gets so far.
\<close>

theorem negative_mde_not_invalid_parameter:
  "calculate_sample_size (effectsize_returns NaN) (NormalIndPower (solver_returns NaN))
     ''epc'' (Fin 10) (Some (Fin 1)) (Some (Fin (- 1 / 10))) (Fin (8 / 10)) (Fin (5 / 100))
     (Fin (8 / 10)) 1 =
   Inl (AttributeError ''solve_nobs_two_indep'')"
  by (simp add: calculate_sample_size_def truediv_int_one py_truediv_def
      resolve_mde_def effect_size_of_def fsub_def solve_and_round_NormalIndPower Let_def)

text \<open>
  C5 does not hold of the code. The request of the repository's own test,
  \<^verbatim>\<open>calculate_sample_size(sm_type='cr', sm_control=0.02)\<close>, passes every check; whatever
  number the effect-size routine answers, line 64 raises \<^verbatim>\<open>AttributeError\<close>, and no
  sizes are returned. The same holds for every request: none returns sizes.
\<close>

theorem default_cr_request_raises_attribute_error:
  "calculate_sample_size (effectsize_returns d) (NormalIndPower solve_power)
     ''cr'' (Fin (2 / 100)) None None (Fin (8 / 10)) (Fin (5 / 100)) (Fin (8 / 10)) 1 =
     Inl (AttributeError ''solve_nobs_two_indep'') \<and>
   (\<forall>pe t c sdo m pw al s k r.
      calculate_sample_size pe (NormalIndPower solve_power) t c sdo m pw al s k \<noteq> Inr r)"
proof -
  have "calculate_sample_size (effectsize_returns d) (NormalIndPower solve_power)
     ''cr'' (Fin (2 / 100)) None None (Fin (8 / 10)) (Fin (5 / 100)) (Fin (8 / 10)) 1 =
     Inl (AttributeError ''solve_nobs_two_indep'')"
    by (simp add: calculate_sample_size_def truediv_int_one py_truediv_def
        resolve_mde_def mde_mapping_def effect_size_of_def effectsize_returns_def fsub_def
        solve_and_round_NormalIndPower Let_def)
  with planner_never_returns_sizes show ?thesis by blast
qed

text \<open>
  C8 does not hold of the code, by the same defect. Two EPC requests with baseline 10
  and standard deviation 1 that differ only in the relative MDE, 0.05 and 0.10, both
  raise the \<^verbatim>\<open>AttributeError\<close> of line 64: neither has sizes to compare.
\<close>

theorem mde_pair_raises_attribute_error:
  "calculate_sample_size pe (NormalIndPower solve_power) ''epc'' (Fin 10) (Some (Fin 1))
     (Some (Fin (5 / 100))) (Fin (8 / 10)) (Fin (5 / 100)) (Fin (8 / 10)) 1 =
     Inl (AttributeError ''solve_nobs_two_indep'') \<and>
   calculate_sample_size pe (NormalIndPower solve_power) ''epc'' (Fin 10) (Some (Fin 1))
     (Some (Fin (10 / 100))) (Fin (8 / 10)) (Fin (5 / 100)) (Fin (8 / 10)) 1 =
     Inl (AttributeError ''solve_nobs_two_indep'')"
  by (simp add: calculate_sample_size_def truediv_int_one py_truediv_def
      resolve_mde_def effect_size_of_def fsub_def solve_and_round_NormalIndPower Let_def)

end
